theory Spec2Isabelle
  imports Main "HOL-Library.Multiset"
begin

section \<open>Cube state\<close>

text \<open>
  The class \<open>RubiksCube\<close> of \<open>cube.py\<close> has one attribute, the dictionary \<open>faces\<close>, whose
  six keys \<open>'U'\<close>, \<open>'D'\<close>, \<open>'F'\<close>, \<open>'B'\<close>, \<open>'L'\<close>, \<open>'R'\<close> are fixed by \<open>__init__\<close> and never
  added to or removed from.  The keys are a datatype, the dictionary a function on it, and a
  face is a list of rows, each row a list of one-character strings (a \<^typ>\<open>char\<close> each).

  Every row of a reachable state is a list of its own: \<open>__init__\<close> and
  \<open>rotate_face_clockwise\<close> build fresh rows, and \<open>move_U\<close>, \<open>move_D\<close> copy rows with \<open>[:]\<close>
  before they store them.  No two rows alias, so the state is modelled by value.
\<close>

datatype face = U | D | F | B | L | R

type_synonym grid = "char list list"

record RubiksCube =
  faces :: "face \<Rightarrow> grid"

text \<open>The insertion order of the dictionary \<open>faces\<close> in \<open>__init__\<close>.\<close>

definition face_keys :: "face list" where
  "face_keys = [U, D, F, B, L, R]"

text \<open>\<open>__init__\<close>: every face is three rows of three cells of one colour.\<close>

definition uniform_face :: "char \<Rightarrow> grid" where
  "uniform_face col = map (\<lambda>_. map (\<lambda>_. col) [0..<3]) [0..<3]"

definition init_faces :: "face \<Rightarrow> grid" where
  "init_faces k = (case k of
       U \<Rightarrow> uniform_face (CHR ''W'')
     | D \<Rightarrow> uniform_face (CHR ''Y'')
     | F \<Rightarrow> uniform_face (CHR ''R'')
     | B \<Rightarrow> uniform_face (CHR ''O'')
     | L \<Rightarrow> uniform_face (CHR ''B'')
     | R \<Rightarrow> uniform_face (CHR ''G''))"

definition RubiksCube_init :: RubiksCube where
  "RubiksCube_init = \<lparr>faces = init_faces\<rparr>"

text \<open>
  The shape every method of the class keeps: three rows of three cells on each face.
  Indexing of a face by \<open>[i][j]\<close> with \<open>i, j < 3\<close> never leaves a grid of this shape, so on
  such states no move raises \<open>IndexError\<close>.
\<close>

definition grid_ok :: "grid \<Rightarrow> bool" where
  "grid_ok g \<longleftrightarrow> length g = 3 \<and> list_all (\<lambda>row. length row = 3) g"

definition cube_ok :: "RubiksCube \<Rightarrow> bool" where
  "cube_ok c \<longleftrightarrow> list_all (\<lambda>k. grid_ok (faces c k)) face_keys"

subsection \<open>Cell and row access\<close>

text \<open>\<open>self.faces[k][i][j] = v\<close> and \<open>self.faces[k][i] = row\<close>.\<close>

definition set_cell :: "RubiksCube \<Rightarrow> face \<Rightarrow> nat \<Rightarrow> nat \<Rightarrow> char \<Rightarrow> RubiksCube" where
  "set_cell c k i j v =
     c\<lparr>faces := (faces c)(k := (faces c k)[i := (faces c k ! i)[j := v]])\<rparr>"

definition set_row :: "RubiksCube \<Rightarrow> face \<Rightarrow> nat \<Rightarrow> char list \<Rightarrow> RubiksCube" where
  "set_row c k i row = c\<lparr>faces := (faces c)(k := (faces c k)[i := row])\<rparr>"

text \<open>\<open>get_face_string\<close>: the rows joined, row-major.\<close>

definition get_face_string :: "RubiksCube \<Rightarrow> face \<Rightarrow> string" where
  "get_face_string c k = concat (faces c k)"

section \<open>Move engine\<close>

text \<open>\<open>rotate_face_clockwise\<close>: a new grid whose cell \<open>(i, j)\<close> is the old cell \<open>(2 - j, i)\<close>.\<close>

definition rotate_face_clockwise :: "RubiksCube \<Rightarrow> face \<Rightarrow> RubiksCube" where
  "rotate_face_clockwise c k =
     c\<lparr>faces := (faces c)(k :=
        map (\<lambda>i. map (\<lambda>j. faces c k ! (2 - j) ! i) [0..<3]) [0..<3])\<rparr>"

definition rotate_face_counterclockwise :: "RubiksCube \<Rightarrow> face \<Rightarrow> RubiksCube" where
  "rotate_face_counterclockwise c k = fold (\<lambda>_ s. rotate_face_clockwise s k) [0..<3] c"

text \<open>
  A strip loop assigns four cells in sequence in each round; every assignment reads the
  state the previous one left.  \<open>temp\<close> is read before the loop.
\<close>

definition move_R :: "RubiksCube \<Rightarrow> RubiksCube" where
  "move_R c =
     (let c1 = rotate_face_clockwise c R;
          temp = map (\<lambda>i. faces c1 U ! i ! 2) [0..<3]
      in fold (\<lambda>i s0.
           let s1 = set_cell s0 U i 2 (faces s0 F ! i ! 2);
               s2 = set_cell s1 F i 2 (faces s1 D ! i ! 2);
               s3 = set_cell s2 D i 2 (faces s2 B ! (2 - i) ! 0)
           in set_cell s3 B (2 - i) 0 (temp ! i)) [0..<3] c1)"

definition move_R_prime :: "RubiksCube \<Rightarrow> RubiksCube" where
  "move_R_prime c = fold (\<lambda>_ s. move_R s) [0..<3] c"

definition move_U :: "RubiksCube \<Rightarrow> RubiksCube" where
  "move_U c =
     (let c1 = rotate_face_clockwise c U;
          temp = faces c1 F ! 0;
          s1 = set_row c1 F 0 (faces c1 R ! 0);
          s2 = set_row s1 R 0 (faces s1 B ! 0);
          s3 = set_row s2 B 0 (faces s2 L ! 0)
      in set_row s3 L 0 temp)"

definition move_U_prime :: "RubiksCube \<Rightarrow> RubiksCube" where
  "move_U_prime c = fold (\<lambda>_ s. move_U s) [0..<3] c"

definition move_F :: "RubiksCube \<Rightarrow> RubiksCube" where
  "move_F c =
     (let c1 = rotate_face_clockwise c F;
          temp = faces c1 U ! 2
      in fold (\<lambda>i s0.
           let s1 = set_cell s0 U 2 i (faces s0 L ! (2 - i) ! 2);
               s2 = set_cell s1 L (2 - i) 2 (faces s1 D ! 0 ! (2 - i));
               s3 = set_cell s2 D 0 (2 - i) (faces s2 R ! i ! 0)
           in set_cell s3 R i 0 (temp ! i)) [0..<3] c1)"

definition move_F_prime :: "RubiksCube \<Rightarrow> RubiksCube" where
  "move_F_prime c = fold (\<lambda>_ s. move_F s) [0..<3] c"

definition move_L :: "RubiksCube \<Rightarrow> RubiksCube" where
  "move_L c =
     (let c1 = rotate_face_clockwise c L;
          temp = map (\<lambda>i. faces c1 U ! i ! 0) [0..<3]
      in fold (\<lambda>i s0.
           let s1 = set_cell s0 U i 0 (faces s0 B ! (2 - i) ! 2);
               s2 = set_cell s1 B (2 - i) 2 (faces s1 D ! i ! 0);
               s3 = set_cell s2 D i 0 (faces s2 F ! i ! 0)
           in set_cell s3 F i 0 (temp ! i)) [0..<3] c1)"

definition move_L_prime :: "RubiksCube \<Rightarrow> RubiksCube" where
  "move_L_prime c = fold (\<lambda>_ s. move_L s) [0..<3] c"

definition move_D :: "RubiksCube \<Rightarrow> RubiksCube" where
  "move_D c =
     (let c1 = rotate_face_clockwise c D;
          temp = faces c1 F ! 2;
          s1 = set_row c1 F 2 (faces c1 L ! 2);
          s2 = set_row s1 L 2 (faces s1 B ! 2);
          s3 = set_row s2 B 2 (faces s2 R ! 2)
      in set_row s3 R 2 temp)"

definition move_D_prime :: "RubiksCube \<Rightarrow> RubiksCube" where
  "move_D_prime c = fold (\<lambda>_ s. move_D s) [0..<3] c"

definition move_B :: "RubiksCube \<Rightarrow> RubiksCube" where
  "move_B c =
     (let c1 = rotate_face_clockwise c B;
          temp = faces c1 U ! 0
      in fold (\<lambda>i s0.
           let s1 = set_cell s0 U 0 i (faces s0 R ! i ! 2);
               s2 = set_cell s1 R i 2 (faces s1 D ! 2 ! (2 - i));
               s3 = set_cell s2 D 2 (2 - i) (faces s2 L ! (2 - i) ! 0)
           in set_cell s3 L (2 - i) 0 (temp ! i)) [0..<3] c1)"

definition move_B_prime :: "RubiksCube \<Rightarrow> RubiksCube" where
  "move_B_prime c = fold (\<lambda>_ s. move_B s) [0..<3] c"

text \<open>
  \<open>execute_move\<close>: the dictionary \<open>move_map\<close> of eighteen tokens; a double move is a lambda
  that calls the clockwise move twice.  A token that is not a key is skipped by the test
  \<open>if move in move_map\<close>; the function has no other branch and raises nothing.
\<close>

definition move_map :: "(string \<times> (RubiksCube \<Rightarrow> RubiksCube)) list" where
  "move_map =
     [(''R'', move_R), ([CHR ''R'', CHR 0x27], move_R_prime),
      (''U'', move_U), ([CHR ''U'', CHR 0x27], move_U_prime),
      (''F'', move_F), ([CHR ''F'', CHR 0x27], move_F_prime),
      (''L'', move_L), ([CHR ''L'', CHR 0x27], move_L_prime),
      (''D'', move_D), ([CHR ''D'', CHR 0x27], move_D_prime),
      (''B'', move_B), ([CHR ''B'', CHR 0x27], move_B_prime),
      (''R2'', \<lambda>c. move_R (move_R c)),
      (''U2'', \<lambda>c. move_U (move_U c)),
      (''F2'', \<lambda>c. move_F (move_F c)),
      (''L2'', \<lambda>c. move_L (move_L c)),
      (''D2'', \<lambda>c. move_D (move_D c)),
      (''B2'', \<lambda>c. move_B (move_B c))]"

definition execute_move :: "RubiksCube \<Rightarrow> string \<Rightarrow> RubiksCube" where
  "execute_move c move =
     (case map_of move_map move of
        Some transform \<Rightarrow> transform c
      | None \<Rightarrow> c)"

text \<open>
  The replay loop of \<open>scramble\<close> and of the solution animation:
  \<open>for move in moves: cube.execute_move(move)\<close>.
\<close>

definition execute_moves :: "RubiksCube \<Rightarrow> string list \<Rightarrow> RubiksCube" where
  "execute_moves c moves = fold (\<lambda>move s. execute_move s move) moves c"

section \<open>Solved predicate\<close>

text \<open>
  \<open>is_solved\<close>: a loop over the faces, their rows and the cells of a row that returns
  \<open>False\<close> at the first cell that differs from the expected colour of its face and \<open>True\<close>
  when no cell does.
\<close>

definition solved_faces :: "(face \<times> char) list" where
  "solved_faces =
     [(U, CHR ''W''), (D, CHR ''Y''), (F, CHR ''R''),
      (B, CHR ''O''), (L, CHR ''B''), (R, CHR ''G'')]"

definition is_solved :: "RubiksCube \<Rightarrow> bool" where
  "is_solved c =
     list_all (\<lambda>(k, expected_color).
        list_all (\<lambda>row. list_all (\<lambda>cell. cell = expected_color) row) (faces c k))
       solved_faces"

section \<open>Encoding for the external solver\<close>

definition KOCIEMBA_COLOR_MAP :: "(char \<times> char) list" where
  "KOCIEMBA_COLOR_MAP =
     [(CHR ''W'', CHR ''U''), (CHR ''R'', CHR ''R''), (CHR ''G'', CHR ''F''),
      (CHR ''Y'', CHR ''D''), (CHR ''O'', CHR ''L''), (CHR ''B'', CHR ''B'')]"

text \<open>\<open>KOCIEMBA_COLOR_MAP.get(color, color)\<close>.\<close>

definition kociemba_get :: "char \<Rightarrow> char" where
  "kociemba_get color =
     (case map_of KOCIEMBA_COLOR_MAP color of Some v \<Rightarrow> v | None \<Rightarrow> color)"

text \<open>
  \<open>get_kociemba_string\<close>: the module flag \<open>KOCIEMBA_AVAILABLE\<close> is a parameter.  Without the
  library the method returns \<open>None\<close>; with it, the string grows by one symbol for each cell
  of the faces in the order \<open>face_order\<close>.
\<close>

definition face_order :: "face list" where
  "face_order = [U, R, F, D, L, B]"

definition get_kociemba_string :: "bool \<Rightarrow> RubiksCube \<Rightarrow> string option" where
  "get_kociemba_string KOCIEMBA_AVAILABLE c =
     (if \<not> KOCIEMBA_AVAILABLE then None
      else Some (fold (\<lambda>k kociemba_string.
                   fold (\<lambda>color acc. acc @ [kociemba_get color])
                     (get_face_string c k) kociemba_string)
                 face_order []))"

section \<open>Writing a face\<close>

text \<open>
  \<open>set_face_from_string\<close> has no length test.  The loop visits \<open>(i, j)\<close> row by row and reads
  \<open>face_string[i * 3 + j]\<close>, which raises \<open>IndexError\<close> when the string is too short; the
  cells assigned before stay assigned, so the error carries the state at the raise.
\<close>

datatype py_error = IndexError

fun set_face_cells ::
  "RubiksCube \<Rightarrow> face \<Rightarrow> string \<Rightarrow> (nat \<times> nat) list \<Rightarrow> (py_error \<times> RubiksCube) + RubiksCube"
where
  "set_face_cells c k face_string [] = Inr c"
| "set_face_cells c k face_string ((i, j) # rest) =
     (if i * 3 + j < length face_string
      then set_face_cells (set_cell c k i j (face_string ! (i * 3 + j))) k face_string rest
      else Inl (IndexError, c))"

definition set_face_from_string ::
  "RubiksCube \<Rightarrow> face \<Rightarrow> string \<Rightarrow> (py_error \<times> RubiksCube) + RubiksCube"
where
  "set_face_from_string c k face_string =
     set_face_cells c k face_string
       (concat (map (\<lambda>i. map (\<lambda>j. (i, j)) [0..<3]) [0..<3]))"

section \<open>Manual input\<close>

text \<open>
  The handler of the button \<open>Update Cube\<close> in \<open>main\<close>.  \<open>face_inputs\<close> is a dictionary with
  the six face keys, filled from six text fields in the order of \<open>face_names\<close>, which is the
  order of \<open>face_keys\<close>.

  Strings are lists of \<^typ>\<open>char\<close>, and \<open>upper\<close> maps each of the ASCII letters \<open>a\<close> to \<open>z\<close>
  to its capital and leaves every other character as it is.  A
  character outside ASCII does not become one of the six colour letters under Python's
  \<open>upper\<close> either, so the validation rejects it in the source as in the model.
\<close>

definition upper_char :: "char \<Rightarrow> char" where
  "upper_char ch =
     (case map_of (zip ''abcdefghijklmnopqrstuvwxyz'' ''ABCDEFGHIJKLMNOPQRSTUVWXYZ'') ch of
        Some u \<Rightarrow> u
      | None \<Rightarrow> ch)"

definition upper :: "string \<Rightarrow> string" where
  "upper s = map upper_char s"

definition valid_colors :: "char set" where
  "valid_colors = set ''WYROBG''"

text \<open>The validation loop: \<open>all_valid\<close> starts \<open>True\<close> and each failing face clears it.\<close>

definition validate_inputs :: "(face \<Rightarrow> string) \<Rightarrow> bool" where
  "validate_inputs face_inputs =
     fold (\<lambda>face_key all_valid.
        if length (face_inputs face_key) \<noteq> 9 then False
        else if \<not> list_all (\<lambda>ch. upper_char ch \<in> valid_colors) (face_inputs face_key)
        then False
        else all_valid) face_keys True"

text \<open>
  The writing loop runs inside \<open>try\<close>; \<open>except Exception\<close> reports an error and leaves the
  cube as it is at the raise.
\<close>

fun store_inputs :: "RubiksCube \<Rightarrow> (face \<Rightarrow> string) \<Rightarrow> face list \<Rightarrow> RubiksCube" where
  "store_inputs c face_inputs [] = c"
| "store_inputs c face_inputs (face_key # rest) =
     (case set_face_from_string c face_key (upper (face_inputs face_key)) of
        Inl (e, c') \<Rightarrow> c'
      | Inr c' \<Rightarrow> store_inputs c' face_inputs rest)"

definition update_cube :: "RubiksCube \<Rightarrow> (face \<Rightarrow> string) \<Rightarrow> RubiksCube" where
  "update_cube c face_inputs =
     (if validate_inputs face_inputs then store_inputs c face_inputs face_keys else c)"

section \<open>Auxiliary definitions\<close>

text \<open>
  The definitions of this section are not functions of \<open>cube.py\<close>: they name what the
  statements below are about.

  A cube given by its six grids, in the order of \<open>face_keys\<close>.
\<close>

definition cube_of :: "grid \<Rightarrow> grid \<Rightarrow> grid \<Rightarrow> grid \<Rightarrow> grid \<Rightarrow> grid \<Rightarrow> RubiksCube" where
  "cube_of u d f b l r =
     \<lparr>faces = (\<lambda>k. case k of U \<Rightarrow> u | D \<Rightarrow> d | F \<Rightarrow> f | B \<Rightarrow> b | L \<Rightarrow> l | R \<Rightarrow> r)\<rparr>"

text \<open>The 54 cells of a cube, face by face.\<close>

definition all_cells :: "RubiksCube \<Rightarrow> char list" where
  "all_cells c = concat (map (get_face_string c) face_keys)"

text \<open>The first nine symbols of a string laid out row by row.\<close>

definition rows_of :: "string \<Rightarrow> grid" where
  "rows_of s = [[s ! 0, s ! 1, s ! 2], [s ! 3, s ! 4, s ! 5], [s ! 6, s ! 7, s ! 8]]"

text \<open>
  The eighteen tokens of the move alphabet: a face letter, alone or followed by an
  apostrophe or by \<open>2\<close>.
\<close>

definition recognized_tokens :: "string list" where
  "recognized_tokens = concat (map (\<lambda>k. [[k], [k, CHR 0x27], [k, CHR ''2'']]) ''RUFLDB'')"

text \<open>The token sequence \<open>R U R' U'\<close>.\<close>

definition R_U_R'_U' :: "string list" where
  "R_U_R'_U' = [''R'', ''U'', [CHR ''R'', CHR 0x27], [CHR ''U'', CHR 0x27]]"

section \<open>Basic facts\<close>

lemma upt3: "[0..<3] = [0, 1, 2]"
  by (simp add: upt_rec)

lemma face_all: "(\<forall>k. P k) \<longleftrightarrow> P U \<and> P D \<and> P F \<and> P B \<and> P L \<and> P R"
  by (metis face.exhaust)

lemma grid_okE:
  assumes "grid_ok g"
  obtains a0 a1 a2 a3 a4 a5 a6 a7 a8 where "g = [[a0, a1, a2], [a3, a4, a5], [a6, a7, a8]]"
proof -
  have row: "\<exists>x y z. r = [x, y, z]" if "length r = 3" for r :: "char list"
    using that by (auto simp: numeral_3_eq_3 length_Suc_conv)
  from assms obtain r0 r1 r2 where g: "g = [r0, r1, r2]"
    and l: "length r0 = 3" "length r1 = 3" "length r2 = 3"
    by (auto simp: grid_ok_def numeral_3_eq_3 length_Suc_conv)
  from l row obtain a0 a1 a2 a3 a4 a5 a6 a7 a8 where
    "r0 = [a0, a1, a2]" "r1 = [a3, a4, a5]" "r2 = [a6, a7, a8]" by metis
  with g that show thesis by simp
qed

lemma grid_ok_lit [simp]: "grid_ok [[a0, a1, a2], [a3, a4, a5], [a6, a7, a8]]"
  by (simp add: grid_ok_def)

lemma cube_ok_face: "cube_ok c \<Longrightarrow> grid_ok (faces c k)"
  by (cases k) (simp_all add: cube_ok_def face_keys_def)

lemma cube_of_faces:
  "cube_of (faces c U) (faces c D) (faces c F) (faces c B) (faces c L) (faces c R) = c"
  by (cases c) (simp add: cube_of_def fun_eq_iff face_all)

lemma cube_ok_cube_of [simp]:
  "cube_ok (cube_of u d f b l r) \<longleftrightarrow>
     grid_ok u \<and> grid_ok d \<and> grid_ok f \<and> grid_ok b \<and> grid_ok l \<and> grid_ok r"
  by (simp add: cube_ok_def cube_of_def face_keys_def)

lemma faces_cube_of [simp]:
  "faces (cube_of u d f b l r) U = u" "faces (cube_of u d f b l r) D = d"
  "faces (cube_of u d f b l r) F = f" "faces (cube_of u d f b l r) B = b"
  "faces (cube_of u d f b l r) L = l" "faces (cube_of u d f b l r) R = r"
  by (simp_all add: cube_of_def)

lemma cube_of_eq [simp]:
  "cube_of u d f b l r = cube_of u' d' f' b' l' r' \<longleftrightarrow>
     u = u' \<and> d = d' \<and> f = f' \<and> b = b' \<and> l = l' \<and> r = r'"
  by (auto simp: cube_of_def fun_eq_iff face_all)

text \<open>A well-shaped cube is a cube of 54 named cells.\<close>

lemma cube_okE:
  assumes "cube_ok c"
  obtains
    u0 u1 u2 u3 u4 u5 u6 u7 u8
    d0 d1 d2 d3 d4 d5 d6 d7 d8
    f0 f1 f2 f3 f4 f5 f6 f7 f8
    b0 b1 b2 b3 b4 b5 b6 b7 b8
    l0 l1 l2 l3 l4 l5 l6 l7 l8
    r0 r1 r2 r3 r4 r5 r6 r7 r8
  where "c = cube_of [[u0, u1, u2], [u3, u4, u5], [u6, u7, u8]]
        [[d0, d1, d2], [d3, d4, d5], [d6, d7, d8]]
        [[f0, f1, f2], [f3, f4, f5], [f6, f7, f8]]
        [[b0, b1, b2], [b3, b4, b5], [b6, b7, b8]]
        [[l0, l1, l2], [l3, l4, l5], [l6, l7, l8]]
        [[r0, r1, r2], [r3, r4, r5], [r6, r7, r8]]"
proof -
  from assms have ok: "grid_ok (faces c U)" "grid_ok (faces c D)" "grid_ok (faces c F)"
    "grid_ok (faces c B)" "grid_ok (faces c L)" "grid_ok (faces c R)"
    by (simp_all add: cube_ok_def face_keys_def)
  from ok(1) obtain u0 u1 u2 u3 u4 u5 u6 u7 u8
    where eU: "faces c U = [[u0, u1, u2], [u3, u4, u5], [u6, u7, u8]]"
    by (rule grid_okE)
  from ok(2) obtain d0 d1 d2 d3 d4 d5 d6 d7 d8
    where eD: "faces c D = [[d0, d1, d2], [d3, d4, d5], [d6, d7, d8]]"
    by (rule grid_okE)
  from ok(3) obtain f0 f1 f2 f3 f4 f5 f6 f7 f8
    where eF: "faces c F = [[f0, f1, f2], [f3, f4, f5], [f6, f7, f8]]"
    by (rule grid_okE)
  from ok(4) obtain b0 b1 b2 b3 b4 b5 b6 b7 b8
    where eB: "faces c B = [[b0, b1, b2], [b3, b4, b5], [b6, b7, b8]]"
    by (rule grid_okE)
  from ok(5) obtain l0 l1 l2 l3 l4 l5 l6 l7 l8
    where eL: "faces c L = [[l0, l1, l2], [l3, l4, l5], [l6, l7, l8]]"
    by (rule grid_okE)
  from ok(6) obtain r0 r1 r2 r3 r4 r5 r6 r7 r8
    where eR: "faces c R = [[r0, r1, r2], [r3, r4, r5], [r6, r7, r8]]"
    by (rule grid_okE)
  have "c = cube_of [[u0, u1, u2], [u3, u4, u5], [u6, u7, u8]]
          [[d0, d1, d2], [d3, d4, d5], [d6, d7, d8]]
          [[f0, f1, f2], [f3, f4, f5], [f6, f7, f8]]
          [[b0, b1, b2], [b3, b4, b5], [b6, b7, b8]]
          [[l0, l1, l2], [l3, l4, l5], [l6, l7, l8]]
          [[r0, r1, r2], [r3, r4, r5], [r6, r7, r8]]"
    using cube_of_faces [of c] by (simp only: eU eD eF eB eL eR)
  then show thesis by (rule that)
qed

lemma init_cube_of:
  "RubiksCube_init =
     cube_of [''WWW'', ''WWW'', ''WWW''] [''YYY'', ''YYY'', ''YYY''] [''RRR'', ''RRR'', ''RRR'']
       [''OOO'', ''OOO'', ''OOO''] [''BBB'', ''BBB'', ''BBB''] [''GGG'', ''GGG'', ''GGG'']"
  by (simp add: RubiksCube_init_def cube_of_def init_faces_def uniform_face_def upt3
      fun_eq_iff face_all)

lemma init_ok: "cube_ok RubiksCube_init"
  by (simp add: init_cube_of)

lemma all_cells_cube_of:
  "all_cells (cube_of u d f b l r) =
     concat u @ concat d @ concat f @ concat b @ concat l @ concat r"
  by (simp add: all_cells_def get_face_string_def face_keys_def)

section \<open>The clockwise moves on named cells\<close>

text \<open>
  Each clockwise move, run on a cube of 54 named cells: the turned face is rotated and
  three cells of each of the four neighbours move on to the next neighbour.
\<close>

lemma move_R_closed:
  "move_R
     (cube_of [[u0, u1, u2], [u3, u4, u5], [u6, u7, u8]]
             [[d0, d1, d2], [d3, d4, d5], [d6, d7, d8]]
             [[f0, f1, f2], [f3, f4, f5], [f6, f7, f8]]
             [[b0, b1, b2], [b3, b4, b5], [b6, b7, b8]]
             [[l0, l1, l2], [l3, l4, l5], [l6, l7, l8]]
             [[r0, r1, r2], [r3, r4, r5], [r6, r7, r8]]) =
   cube_of [[u0, u1, f2], [u3, u4, f5], [u6, u7, f8]]
        [[d0, d1, b6], [d3, d4, b3], [d6, d7, b0]]
        [[f0, f1, d2], [f3, f4, d5], [f6, f7, d8]]
        [[u8, b1, b2], [u5, b4, b5], [u2, b7, b8]]
        [[l0, l1, l2], [l3, l4, l5], [l6, l7, l8]]
        [[r6, r3, r0], [r7, r4, r1], [r8, r5, r2]]"
  by (simp add: move_R_def rotate_face_clockwise_def set_cell_def cube_of_def upt3 Let_def
      fun_eq_iff face_all)

lemma move_U_closed:
  "move_U
     (cube_of [[u0, u1, u2], [u3, u4, u5], [u6, u7, u8]]
             [[d0, d1, d2], [d3, d4, d5], [d6, d7, d8]]
             [[f0, f1, f2], [f3, f4, f5], [f6, f7, f8]]
             [[b0, b1, b2], [b3, b4, b5], [b6, b7, b8]]
             [[l0, l1, l2], [l3, l4, l5], [l6, l7, l8]]
             [[r0, r1, r2], [r3, r4, r5], [r6, r7, r8]]) =
   cube_of [[u6, u3, u0], [u7, u4, u1], [u8, u5, u2]]
        [[d0, d1, d2], [d3, d4, d5], [d6, d7, d8]]
        [[r0, r1, r2], [f3, f4, f5], [f6, f7, f8]]
        [[l0, l1, l2], [b3, b4, b5], [b6, b7, b8]]
        [[f0, f1, f2], [l3, l4, l5], [l6, l7, l8]]
        [[b0, b1, b2], [r3, r4, r5], [r6, r7, r8]]"
  by (simp add: move_U_def rotate_face_clockwise_def set_row_def cube_of_def upt3 Let_def
      fun_eq_iff face_all)

lemma move_F_closed:
  "move_F
     (cube_of [[u0, u1, u2], [u3, u4, u5], [u6, u7, u8]]
             [[d0, d1, d2], [d3, d4, d5], [d6, d7, d8]]
             [[f0, f1, f2], [f3, f4, f5], [f6, f7, f8]]
             [[b0, b1, b2], [b3, b4, b5], [b6, b7, b8]]
             [[l0, l1, l2], [l3, l4, l5], [l6, l7, l8]]
             [[r0, r1, r2], [r3, r4, r5], [r6, r7, r8]]) =
   cube_of [[u0, u1, u2], [u3, u4, u5], [l8, l5, l2]]
        [[r6, r3, r0], [d3, d4, d5], [d6, d7, d8]]
        [[f6, f3, f0], [f7, f4, f1], [f8, f5, f2]]
        [[b0, b1, b2], [b3, b4, b5], [b6, b7, b8]]
        [[l0, l1, d0], [l3, l4, d1], [l6, l7, d2]]
        [[u6, r1, r2], [u7, r4, r5], [u8, r7, r8]]"
  by (simp add: move_F_def rotate_face_clockwise_def set_cell_def cube_of_def upt3 Let_def
      fun_eq_iff face_all)

lemma move_L_closed:
  "move_L
     (cube_of [[u0, u1, u2], [u3, u4, u5], [u6, u7, u8]]
             [[d0, d1, d2], [d3, d4, d5], [d6, d7, d8]]
             [[f0, f1, f2], [f3, f4, f5], [f6, f7, f8]]
             [[b0, b1, b2], [b3, b4, b5], [b6, b7, b8]]
             [[l0, l1, l2], [l3, l4, l5], [l6, l7, l8]]
             [[r0, r1, r2], [r3, r4, r5], [r6, r7, r8]]) =
   cube_of [[b8, u1, u2], [b5, u4, u5], [b2, u7, u8]]
        [[f0, d1, d2], [f3, d4, d5], [f6, d7, d8]]
        [[u0, f1, f2], [u3, f4, f5], [u6, f7, f8]]
        [[b0, b1, d6], [b3, b4, d3], [b6, b7, d0]]
        [[l6, l3, l0], [l7, l4, l1], [l8, l5, l2]]
        [[r0, r1, r2], [r3, r4, r5], [r6, r7, r8]]"
  by (simp add: move_L_def rotate_face_clockwise_def set_cell_def cube_of_def upt3 Let_def
      fun_eq_iff face_all)

lemma move_D_closed:
  "move_D
     (cube_of [[u0, u1, u2], [u3, u4, u5], [u6, u7, u8]]
             [[d0, d1, d2], [d3, d4, d5], [d6, d7, d8]]
             [[f0, f1, f2], [f3, f4, f5], [f6, f7, f8]]
             [[b0, b1, b2], [b3, b4, b5], [b6, b7, b8]]
             [[l0, l1, l2], [l3, l4, l5], [l6, l7, l8]]
             [[r0, r1, r2], [r3, r4, r5], [r6, r7, r8]]) =
   cube_of [[u0, u1, u2], [u3, u4, u5], [u6, u7, u8]]
        [[d6, d3, d0], [d7, d4, d1], [d8, d5, d2]]
        [[f0, f1, f2], [f3, f4, f5], [l6, l7, l8]]
        [[b0, b1, b2], [b3, b4, b5], [r6, r7, r8]]
        [[l0, l1, l2], [l3, l4, l5], [b6, b7, b8]]
        [[r0, r1, r2], [r3, r4, r5], [f6, f7, f8]]"
  by (simp add: move_D_def rotate_face_clockwise_def set_row_def cube_of_def upt3 Let_def
      fun_eq_iff face_all)

lemma move_B_closed:
  "move_B
     (cube_of [[u0, u1, u2], [u3, u4, u5], [u6, u7, u8]]
             [[d0, d1, d2], [d3, d4, d5], [d6, d7, d8]]
             [[f0, f1, f2], [f3, f4, f5], [f6, f7, f8]]
             [[b0, b1, b2], [b3, b4, b5], [b6, b7, b8]]
             [[l0, l1, l2], [l3, l4, l5], [l6, l7, l8]]
             [[r0, r1, r2], [r3, r4, r5], [r6, r7, r8]]) =
   cube_of [[r2, r5, r8], [u3, u4, u5], [u6, u7, u8]]
        [[d0, d1, d2], [d3, d4, d5], [l0, l3, l6]]
        [[f0, f1, f2], [f3, f4, f5], [f6, f7, f8]]
        [[b6, b3, b0], [b7, b4, b1], [b8, b5, b2]]
        [[u2, l1, l2], [u1, l4, l5], [u0, l7, l8]]
        [[r0, r1, d8], [r3, r4, d7], [r6, r7, d6]]"
  by (simp add: move_B_def rotate_face_clockwise_def set_cell_def cube_of_def upt3 Let_def
      fun_eq_iff face_all)

lemmas moves_closed = move_R_closed move_U_closed move_F_closed move_L_closed move_D_closed move_B_closed

text \<open>The moves keep the shape of the cube.\<close>

lemma moves_ok:
  "cube_ok c \<Longrightarrow> cube_ok (move_R c)"
    "cube_ok c \<Longrightarrow> cube_ok (move_U c)"
    "cube_ok c \<Longrightarrow> cube_ok (move_F c)"
    "cube_ok c \<Longrightarrow> cube_ok (move_L c)"
    "cube_ok c \<Longrightarrow> cube_ok (move_D c)"
    "cube_ok c \<Longrightarrow> cube_ok (move_B c)"
  by (erule cube_okE, simp add: moves_closed)+

text \<open>Four quarter turns of one face restore every cell.\<close>

lemma moves_order4:
  "cube_ok c \<Longrightarrow> move_R (move_R (move_R (move_R c))) = c"
    "cube_ok c \<Longrightarrow> move_U (move_U (move_U (move_U c))) = c"
    "cube_ok c \<Longrightarrow> move_F (move_F (move_F (move_F c))) = c"
    "cube_ok c \<Longrightarrow> move_L (move_L (move_L (move_L c))) = c"
    "cube_ok c \<Longrightarrow> move_D (move_D (move_D (move_D c))) = c"
    "cube_ok c \<Longrightarrow> move_B (move_B (move_B (move_B c))) = c"
  by (erule cube_okE, simp only: moves_closed)+

text \<open>A move permutes the cells: the multiset of the 54 symbols stays the same.\<close>

lemma moves_mset:
  "cube_ok c \<Longrightarrow> mset (all_cells (move_R c)) = mset (all_cells c)"
    "cube_ok c \<Longrightarrow> mset (all_cells (move_U c)) = mset (all_cells c)"
    "cube_ok c \<Longrightarrow> mset (all_cells (move_F c)) = mset (all_cells c)"
    "cube_ok c \<Longrightarrow> mset (all_cells (move_L c)) = mset (all_cells c)"
    "cube_ok c \<Longrightarrow> mset (all_cells (move_D c)) = mset (all_cells c)"
    "cube_ok c \<Longrightarrow> mset (all_cells (move_B c)) = mset (all_cells c)"
  by (erule cube_okE, simp add: moves_closed all_cells_cube_of)+

text \<open>No move writes the middle cell of a face.\<close>

lemma moves_centre:
  "cube_ok c \<Longrightarrow> faces (move_R c) k ! 1 ! 1 = faces c k ! 1 ! 1"
    "cube_ok c \<Longrightarrow> faces (move_U c) k ! 1 ! 1 = faces c k ! 1 ! 1"
    "cube_ok c \<Longrightarrow> faces (move_F c) k ! 1 ! 1 = faces c k ! 1 ! 1"
    "cube_ok c \<Longrightarrow> faces (move_L c) k ! 1 ! 1 = faces c k ! 1 ! 1"
    "cube_ok c \<Longrightarrow> faces (move_D c) k ! 1 ! 1 = faces c k ! 1 ! 1"
    "cube_ok c \<Longrightarrow> faces (move_B c) k ! 1 ! 1 = faces c k ! 1 ! 1"
  by (erule cube_okE, cases k; simp add: moves_closed)+

lemma prime_unfold:
  "move_R_prime c = move_R (move_R (move_R c))"
    "move_U_prime c = move_U (move_U (move_U c))"
    "move_F_prime c = move_F (move_F (move_F c))"
    "move_L_prime c = move_L (move_L (move_L c))"
    "move_D_prime c = move_D (move_D (move_D c))"
    "move_B_prime c = move_B (move_B (move_B c))"
  by (simp_all add: move_R_prime_def move_U_prime_def move_F_prime_def move_L_prime_def
      move_D_prime_def move_B_prime_def upt3)

lemma execute_move_simps:
  "execute_move c ''R'' = move_R c"
    "execute_move c ''U'' = move_U c"
    "execute_move c ''F'' = move_F c"
    "execute_move c ''L'' = move_L c"
    "execute_move c ''D'' = move_D c"
    "execute_move c ''B'' = move_B c"
  "execute_move c [CHR ''R'', CHR 0x27] = move_R_prime c"
    "execute_move c [CHR ''U'', CHR 0x27] = move_U_prime c"
    "execute_move c [CHR ''F'', CHR 0x27] = move_F_prime c"
    "execute_move c [CHR ''L'', CHR 0x27] = move_L_prime c"
    "execute_move c [CHR ''D'', CHR 0x27] = move_D_prime c"
    "execute_move c [CHR ''B'', CHR 0x27] = move_B_prime c"
  "execute_move c ''R2'' = move_R (move_R c)"
    "execute_move c ''U2'' = move_U (move_U c)"
    "execute_move c ''F2'' = move_F (move_F c)"
    "execute_move c ''L2'' = move_L (move_L c)"
    "execute_move c ''D2'' = move_D (move_D c)"
    "execute_move c ''B2'' = move_B (move_B c)"
  by (simp_all add: execute_move_def move_map_def)

text \<open>The eighteen tokens are exactly the keys of \<open>move_map\<close>.\<close>

lemma recognized_tokens_keys: "set recognized_tokens = fst ` set move_map"
  by (auto simp: recognized_tokens_def move_map_def)

text \<open>
  Whatever the token, \<open>execute_move\<close> runs clockwise moves only (or nothing), so a property
  that the six clockwise moves keep is kept by every call and by every sequence of calls.
\<close>

lemma execute_move_induct:
  assumes "P c"
    and "\<And>s. P s \<Longrightarrow> P (move_R s)" and "\<And>s. P s \<Longrightarrow> P (move_U s)"
    and "\<And>s. P s \<Longrightarrow> P (move_F s)" and "\<And>s. P s \<Longrightarrow> P (move_L s)"
    and "\<And>s. P s \<Longrightarrow> P (move_D s)" and "\<And>s. P s \<Longrightarrow> P (move_B s)"
  shows "P (execute_move c move)"
proof (cases "map_of move_map move")
  case None
  with assms(1) show ?thesis by (simp add: execute_move_def)
next
  case (Some t)
  then have "(move, t) \<in> set move_map" by (rule map_of_SomeD)
  then have "P (t c)"
    by (auto simp: move_map_def prime_unfold intro!: assms(2-7) assms(1))
  with Some show ?thesis by (simp add: execute_move_def)
qed

lemma execute_moves_induct:
  assumes "P c"
    and "\<And>s. P s \<Longrightarrow> P (move_R s)" and "\<And>s. P s \<Longrightarrow> P (move_U s)"
    and "\<And>s. P s \<Longrightarrow> P (move_F s)" and "\<And>s. P s \<Longrightarrow> P (move_L s)"
    and "\<And>s. P s \<Longrightarrow> P (move_D s)" and "\<And>s. P s \<Longrightarrow> P (move_B s)"
  shows "P (execute_moves c moves)"
  using assms(1)
proof (induction moves arbitrary: c)
  case Nil
  then show ?case by (simp add: execute_moves_def)
next
  case (Cons m ms)
  from Cons.prems have "P (execute_move c m)"
    by (rule execute_move_induct) (rule assms(2-7), assumption)+
  then have "P (execute_moves (execute_move c m) ms)" by (rule Cons.IH)
  then show ?case by (simp add: execute_moves_def)
qed

lemma execute_moves_ok: "cube_ok c \<Longrightarrow> cube_ok (execute_moves c moves)"
  by (erule execute_moves_induct) (simp_all add: moves_ok)

section \<open>Writing a face: closed form\<close>

lemma length_ge9E:
  assumes "9 \<le> length (s :: 'a list)"
  obtains b0 b1 b2 b3 b4 b5 b6 b7 b8 rest
  where "s = b0 # b1 # b2 # b3 # b4 # b5 # b6 # b7 # b8 # rest"
  using assms by (auto simp: eval_nat_numeral Suc_le_length_iff)

lemma set_face_from_string_ge9:
  assumes "grid_ok (faces c k)" and "9 \<le> length s"
  shows "set_face_from_string c k s = Inr (c\<lparr>faces := (faces c)(k := rows_of s)\<rparr>)"
proof -
  from assms(1) obtain a0 a1 a2 a3 a4 a5 a6 a7 a8
    where g: "faces c k = [[a0, a1, a2], [a3, a4, a5], [a6, a7, a8]]"
    by (rule grid_okE)
  from assms(2) obtain b0 b1 b2 b3 b4 b5 b6 b7 b8 rest
    where s: "s = b0 # b1 # b2 # b3 # b4 # b5 # b6 # b7 # b8 # rest"
    by (rule length_ge9E)
  show ?thesis
    by (simp add: set_face_from_string_def rows_of_def upt3 set_cell_def g s)
qed

lemma set_face_from_string_lt9:
  assumes "length s < 9"
  shows "\<exists>c'. set_face_from_string c k s = Inl (IndexError, c')"
  using assms by (simp add: set_face_from_string_def upt3)

lemma concat_rows_of: "length s = 9 \<Longrightarrow> concat (rows_of s) = s"
proof -
  assume l: "length s = 9"
  then have "9 \<le> length s" by simp
  then obtain b0 b1 b2 b3 b4 b5 b6 b7 b8 rest
    where s: "s = b0 # b1 # b2 # b3 # b4 # b5 # b6 # b7 # b8 # rest"
    by (rule length_ge9E)
  with l have "rest = []" by simp
  with s show ?thesis by (simp add: rows_of_def)
qed

lemma grid_ok_rows_of [simp]: "grid_ok (rows_of s)"
  by (simp add: rows_of_def)

section \<open>Manual input: validation and storing\<close>

lemma upper_char_valid: "upper_char ch \<in> valid_colors \<longleftrightarrow> ch \<in> set ''WYROBGwyrobg''"
  by (auto simp add: upper_char_def valid_colors_def)

lemma validate_inputs_iff:
  "validate_inputs face_inputs \<longleftrightarrow>
     (\<forall>k. length (face_inputs k) = 9 \<and> (\<forall>ch\<in>set (face_inputs k). ch \<in> set ''WYROBGwyrobg''))"
  unfolding validate_inputs_def face_keys_def list_all_iff upper_char_valid face_all
  by auto

lemma store_inputs_all:
  assumes "cube_ok c" and "\<And>k. length (face_inputs k) = 9"
  shows "faces (store_inputs c face_inputs face_keys) = (\<lambda>k. rows_of (upper (face_inputs k)))"
proof -
  have len: "9 \<le> length (upper (face_inputs k))" for k
    by (simp add: upper_def assms(2))
  have ok: "grid_ok (faces c k)" for k
    using assms(1) by (rule cube_ok_face)
  show ?thesis
    by (simp add: face_keys_def set_face_from_string_ge9 len ok fun_eq_iff face_all)
qed

section \<open>Inverse and order of the moves\<close>

text \<open>
  Claim C1.  For every face letter \<open>k\<close> of \<open>R U F L D B\<close> and every cube of the right shape,
  running the clockwise token \<open>k\<close> and then the counter-clockwise token \<open>k'\<close> gives back the
  cube it started from, on all six faces, and so does \<open>k'\<close> followed by \<open>k\<close>.  The
  counter-clockwise token does exactly what three runs of the clockwise token do.
\<close>

theorem inverse_law:
  assumes "cube_ok c" and "k \<in> set ''RUFLDB''"
  shows "execute_move (execute_move c [k]) [k, CHR 0x27] = c
       \<and> execute_move (execute_move c [k, CHR 0x27]) [k] = c
       \<and> execute_move c [k, CHR 0x27] =
           execute_move (execute_move (execute_move c [k]) [k]) [k]"
  using assms by (auto simp: execute_move_simps prime_unfold moves_order4)

theorem inverse_law_witness:
  "cube_ok (move_U RubiksCube_init) \<and> CHR ''F'' \<in> set ''RUFLDB''
   \<and> execute_move (execute_move (move_U RubiksCube_init) ''F'') [CHR ''F'', CHR 0x27] =
       move_U RubiksCube_init
   \<and> execute_move (execute_move (move_U RubiksCube_init) [CHR ''F'', CHR 0x27]) ''F'' =
       move_U RubiksCube_init
   \<and> execute_move (move_U RubiksCube_init) [CHR ''F'', CHR 0x27] =
       execute_move (execute_move (execute_move (move_U RubiksCube_init) ''F'') ''F'') ''F''"
proof -
  have ok: "cube_ok (move_U RubiksCube_init)"
    by (simp add: init_cube_of moves_closed)
  have mem: "CHR ''F'' \<in> set ''RUFLDB''"
    by simp
  from inverse_law [OF ok mem] ok mem show ?thesis
    by blast
qed

text \<open>
  Claim C2.  For every face letter \<open>k\<close> and every cube of the right shape, four runs of the
  clockwise token \<open>k\<close> give back the starting cube; the double token \<open>k2\<close> does what two
  runs of \<open>k\<close> do, and two runs of \<open>k2\<close> give back the starting cube.
\<close>

theorem order4_law:
  assumes "cube_ok c" and "k \<in> set ''RUFLDB''"
  shows "execute_move (execute_move (execute_move (execute_move c [k]) [k]) [k]) [k] = c
       \<and> execute_move c [k, CHR ''2''] = execute_move (execute_move c [k]) [k]
       \<and> execute_move (execute_move c [k, CHR ''2'']) [k, CHR ''2''] = c"
  using assms by (auto simp: execute_move_simps moves_order4)

theorem order4_law_witness:
  "cube_ok (move_R RubiksCube_init) \<and> CHR ''B'' \<in> set ''RUFLDB''
   \<and> execute_move (execute_move (execute_move (execute_move (move_R RubiksCube_init)
         ''B'') ''B'') ''B'') ''B'' = move_R RubiksCube_init
   \<and> execute_move (move_R RubiksCube_init) ''B2'' =
       execute_move (execute_move (move_R RubiksCube_init) ''B'') ''B''
   \<and> execute_move (execute_move (move_R RubiksCube_init) ''B2'') ''B2'' =
       move_R RubiksCube_init"
proof -
  have ok: "cube_ok (move_R RubiksCube_init)"
    by (simp add: init_cube_of moves_closed)
  have mem: "CHR ''B'' \<in> set ''RUFLDB''"
    by simp
  from order4_law [OF ok mem] ok mem show ?thesis
    by blast
qed

text \<open>
  Claim C3.  From the solved cube, one run of the four tokens \<open>R U R' U'\<close> gives a cube
  that is not solved (and differs from the solved cube); six runs of the four tokens, 24
  calls of \<open>execute_move\<close>, give back exactly the solved cube.
\<close>

theorem R_U_R'_U'_six_times:
  "\<not> is_solved (execute_moves RubiksCube_init R_U_R'_U')
   \<and> execute_moves RubiksCube_init R_U_R'_U' \<noteq> RubiksCube_init
   \<and> length (concat (replicate 6 R_U_R'_U')) = 24
   \<and> execute_moves RubiksCube_init (concat (replicate 6 R_U_R'_U')) = RubiksCube_init
   \<and> is_solved (execute_moves RubiksCube_init (concat (replicate 6 R_U_R'_U')))"
proof -
  have once: "execute_moves RubiksCube_init R_U_R'_U' =
      cube_of [''WWB'', ''WWR'', ''WWR''] [''YYG'', ''YYY'', ''YYY'']
        [''RRY'', ''RRW'', ''RRR''] [''OGG'', ''OOO'', ''OOO'']
        [''OBB'', ''BBB'', ''BBB''] [''GGW'', ''OGG'', ''WGG'']"
    by (simp add: execute_moves_def R_U_R'_U'_def execute_move_simps prime_unfold
        init_cube_of moves_closed)
  have six: "execute_moves RubiksCube_init (concat (replicate 6 R_U_R'_U')) = RubiksCube_init"
    by (simp add: execute_moves_def R_U_R'_U'_def eval_nat_numeral execute_move_simps
        prime_unfold init_cube_of moves_closed)
  have solved: "is_solved RubiksCube_init"
    by (simp add: init_cube_of is_solved_def solved_faces_def)
  have len: "length (concat (replicate 6 R_U_R'_U')) = 24"
    by (simp add: R_U_R'_U'_def eval_nat_numeral)
  have not_solved: "\<not> is_solved (execute_moves RubiksCube_init R_U_R'_U')"
    by (simp add: once is_solved_def solved_faces_def)
  have differs: "execute_moves RubiksCube_init R_U_R'_U' \<noteq> RubiksCube_init"
    unfolding once by (simp add: init_cube_of)
  from not_solved differs len six solved show ?thesis
    by simp
qed

section \<open>Invariants of move sequences\<close>

text \<open>
  Claim C4.  From the solved cube, after any finite sequence of tokens given to
  \<open>execute_move\<close> (the eighteen move tokens, and any other string as well), the six faces
  hold 54 cells and each of the six colours \<open>W Y R O B G\<close> is on exactly nine of them.
\<close>

theorem colour_count_invariant:
  "length (all_cells (execute_moves RubiksCube_init moves)) = 54
   \<and> count_list (all_cells (execute_moves RubiksCube_init moves)) (CHR ''W'') = 9
   \<and> count_list (all_cells (execute_moves RubiksCube_init moves)) (CHR ''Y'') = 9
   \<and> count_list (all_cells (execute_moves RubiksCube_init moves)) (CHR ''R'') = 9
   \<and> count_list (all_cells (execute_moves RubiksCube_init moves)) (CHR ''O'') = 9
   \<and> count_list (all_cells (execute_moves RubiksCube_init moves)) (CHR ''B'') = 9
   \<and> count_list (all_cells (execute_moves RubiksCube_init moves)) (CHR ''G'') = 9"
proof -
  let ?s = "execute_moves RubiksCube_init moves"
  have "cube_ok ?s \<and> mset (all_cells ?s) = mset (all_cells RubiksCube_init)"
    by (rule execute_moves_induct) (simp_all add: init_ok moves_ok moves_mset)
  then have m: "mset (all_cells ?s) = mset (all_cells RubiksCube_init)"
    by simp
  have len: "length (all_cells ?s) = length (all_cells RubiksCube_init)"
    using m by (rule mset_eq_length)
  have cnt: "count_list (all_cells ?s) x = count_list (all_cells RubiksCube_init) x" for x
    using m by (metis count_mset)
  show ?thesis
    unfolding len cnt by (simp add: init_cube_of all_cells_cube_of)
qed

text \<open>
  Claim C10.  On a cube of the right shape no call of \<open>execute_move\<close>, whatever the token,
  changes the middle cell (row 1, column 1) of any face; so every cube reached from the
  solved one keeps the centres Up white, Down yellow, Front red, Back orange, Left blue and
  Right green.
\<close>

theorem centres_fixed:
  assumes "cube_ok c"
  shows "faces (execute_move c move) k ! 1 ! 1 = faces c k ! 1 ! 1
       \<and> faces (execute_moves RubiksCube_init moves) k ! 1 ! 1 =
           (case k of U \<Rightarrow> CHR ''W'' | D \<Rightarrow> CHR ''Y'' | F \<Rightarrow> CHR ''R''
                    | B \<Rightarrow> CHR ''O'' | L \<Rightarrow> CHR ''B'' | R \<Rightarrow> CHR ''G'')"
proof -
  have step: "cube_ok s \<and> faces s k ! 1 ! 1 = x \<Longrightarrow>
      cube_ok (execute_move s move) \<and> faces (execute_move s move) k ! 1 ! 1 = x" for s x
    by (erule execute_move_induct) (simp_all add: moves_ok moves_centre del: One_nat_def)
  have one: "faces (execute_move c move) k ! 1 ! 1 = faces c k ! 1 ! 1"
    using step [of c "faces c k ! 1 ! 1"] assms by simp
  let ?s = "execute_moves RubiksCube_init moves"
  have "cube_ok ?s \<and> faces ?s k ! 1 ! 1 = faces RubiksCube_init k ! 1 ! 1"
    by (rule execute_moves_induct) (simp_all add: init_ok moves_ok moves_centre del: One_nat_def)
  then have "faces ?s k ! 1 ! 1 = faces RubiksCube_init k ! 1 ! 1"
    by simp
  also have "\<dots> = (case k of U \<Rightarrow> CHR ''W'' | D \<Rightarrow> CHR ''Y'' | F \<Rightarrow> CHR ''R''
                    | B \<Rightarrow> CHR ''O'' | L \<Rightarrow> CHR ''B'' | R \<Rightarrow> CHR ''G'')"
    by (cases k) (simp_all add: init_cube_of)
  finally show ?thesis
    using one by simp
qed

theorem centres_fixed_witness:
  "cube_ok (move_F RubiksCube_init)
   \<and> faces (execute_move (move_F RubiksCube_init) ''R2'') U ! 1 ! 1 =
       faces (move_F RubiksCube_init) U ! 1 ! 1
   \<and> faces (execute_moves RubiksCube_init [''L'', ''D2'']) U ! 1 ! 1 = CHR ''W''"
proof -
  have ok: "cube_ok (move_F RubiksCube_init)"
    by (simp add: init_cube_of moves_closed)
  from centres_fixed [OF ok, of "''R2''" U "[''L'', ''D2'']"] ok show ?thesis
    by simp
qed

section \<open>Encoding for the solver\<close>

text \<open>
  Claim C5.  With the solver library available, the encoding of a cube of the right shape
  is a string of 54 symbols: the faces in the order Up, Right, Front, Down, Left, Back, the
  nine cells of each face row by row, every cell translated by the table White to \<open>U\<close>,
  Red to \<open>R\<close>, Green to \<open>F\<close>, Yellow to \<open>D\<close>, Orange to \<open>L\<close>, Blue to \<open>B\<close>; a symbol that is
  none of the six colours is kept as it is.
\<close>

theorem canonical_encoding:
  assumes "cube_ok c"
  shows "get_kociemba_string True c =
           Some (concat (map (\<lambda>k. map kociemba_get
              [faces c k ! 0 ! 0, faces c k ! 0 ! 1, faces c k ! 0 ! 2,
               faces c k ! 1 ! 0, faces c k ! 1 ! 1, faces c k ! 1 ! 2,
               faces c k ! 2 ! 0, faces c k ! 2 ! 1, faces c k ! 2 ! 2]) [U, R, F, D, L, B]))
       \<and> length (the (get_kociemba_string True c)) = 54
       \<and> kociemba_get (CHR ''W'') = CHR ''U'' \<and> kociemba_get (CHR ''R'') = CHR ''R''
       \<and> kociemba_get (CHR ''G'') = CHR ''F'' \<and> kociemba_get (CHR ''Y'') = CHR ''D''
       \<and> kociemba_get (CHR ''O'') = CHR ''L'' \<and> kociemba_get (CHR ''B'') = CHR ''B''
       \<and> (ch \<notin> set ''WRGYOB'' \<longrightarrow> kociemba_get ch = ch)"
proof -
  have enc: "get_kociemba_string True c =
           Some (concat (map (\<lambda>k. map kociemba_get
              [faces c k ! 0 ! 0, faces c k ! 0 ! 1, faces c k ! 0 ! 2,
               faces c k ! 1 ! 0, faces c k ! 1 ! 1, faces c k ! 1 ! 2,
               faces c k ! 2 ! 0, faces c k ! 2 ! 1, faces c k ! 2 ! 2]) [U, R, F, D, L, B]))"
    using assms
    by (elim cube_okE) (simp add: get_kociemba_string_def face_order_def get_face_string_def)
  have len: "length (the (get_kociemba_string True c)) = 54"
    unfolding enc by simp
  have table: "kociemba_get (CHR ''W'') = CHR ''U''" "kociemba_get (CHR ''R'') = CHR ''R''"
    "kociemba_get (CHR ''G'') = CHR ''F''" "kociemba_get (CHR ''Y'') = CHR ''D''"
    "kociemba_get (CHR ''O'') = CHR ''L''" "kociemba_get (CHR ''B'') = CHR ''B''"
    by (simp_all add: kociemba_get_def KOCIEMBA_COLOR_MAP_def)
  have other: "ch \<notin> set ''WRGYOB'' \<longrightarrow> kociemba_get ch = ch"
    by (simp add: kociemba_get_def KOCIEMBA_COLOR_MAP_def)
  from enc len table other show ?thesis
    by simp
qed

theorem canonical_encoding_witness:
  "cube_ok (move_R RubiksCube_init)
   \<and> get_kociemba_string True (move_R RubiksCube_init) =
       Some ''UURUURUURFFFFFFFFFRRDRRDRRDDDLDDLDDLBBBBBBBBBULLULLULL''
   \<and> CHR ''x'' \<notin> set ''WRGYOB'' \<and> kociemba_get (CHR ''x'') = CHR ''x''"
proof -
  have ok: "cube_ok (move_R RubiksCube_init)"
    by (simp add: init_cube_of moves_closed)
  from canonical_encoding [OF ok, of "CHR ''x''"] ok show ?thesis
    by (simp add: init_cube_of moves_closed kociemba_get_def KOCIEMBA_COLOR_MAP_def)
qed

section \<open>The solved predicate\<close>

text \<open>
  Claim C6.  \<open>is_solved\<close> is true exactly when every cell of every face has the colour of
  that face in the solved cube: Up white, Down yellow, Front red, Back orange, Left blue,
  Right green.  The cube built by \<open>__init__\<close> is solved; after one \<open>R\<close> it is not.
\<close>

theorem is_solved_exact:
  "(is_solved c \<longleftrightarrow>
      (\<forall>k. \<forall>row\<in>set (faces c k). \<forall>cell\<in>set row.
         cell = (case k of U \<Rightarrow> CHR ''W'' | D \<Rightarrow> CHR ''Y'' | F \<Rightarrow> CHR ''R''
                         | B \<Rightarrow> CHR ''O'' | L \<Rightarrow> CHR ''B'' | R \<Rightarrow> CHR ''G'')))
   \<and> is_solved RubiksCube_init
   \<and> \<not> is_solved (execute_move RubiksCube_init ''R'')"
proof -
  have iff: "is_solved c \<longleftrightarrow>
      (\<forall>k. \<forall>row\<in>set (faces c k). \<forall>cell\<in>set row.
         cell = (case k of U \<Rightarrow> CHR ''W'' | D \<Rightarrow> CHR ''Y'' | F \<Rightarrow> CHR ''R''
                         | B \<Rightarrow> CHR ''O'' | L \<Rightarrow> CHR ''B'' | R \<Rightarrow> CHR ''G''))"
    by (simp add: is_solved_def solved_faces_def list_all_iff face_all)
  have fresh: "is_solved RubiksCube_init"
    by (simp add: init_cube_of is_solved_def solved_faces_def)
  have turned: "\<not> is_solved (execute_move RubiksCube_init ''R'')"
    by (simp add: execute_move_simps init_cube_of moves_closed is_solved_def solved_faces_def)
  from iff fresh turned show ?thesis
    by simp
qed

theorem is_solved_exact_witness:
  "''WWR'' \<in> set (faces (move_R RubiksCube_init) U) \<and> CHR ''R'' \<in> set ''WWR''
   \<and> CHR ''R'' \<noteq> CHR ''W'' \<and> \<not> is_solved (move_R RubiksCube_init)"
proof -
  have row: "''WWR'' \<in> set (faces (move_R RubiksCube_init) U)"
    by (simp add: init_cube_of moves_closed)
  have cell: "CHR ''R'' \<in> set ''WWR''"
    by simp
  have "is_solved (move_R RubiksCube_init) \<longrightarrow> CHR ''R'' = CHR ''W''"
  proof
    assume "is_solved (move_R RubiksCube_init)"
    with is_solved_exact [of "move_R RubiksCube_init"]
    have "\<forall>row\<in>set (faces (move_R RubiksCube_init) U). \<forall>cell\<in>set row. cell = CHR ''W''"
      by (simp add: face_all)
    with row cell show "CHR ''R'' = CHR ''W''"
      by blast
  qed
  with row cell show ?thesis
    by simp
qed

section \<open>Writing a face from a string\<close>

text \<open>
  Claim C7, as the code has it.  \<open>set_face_from_string\<close> tests no length.  On a cube of the
  right shape, a string of nine symbols or more overwrites the face row by row with its
  first nine symbols, whatever the symbols are, and nothing fails; a string of fewer than
  nine symbols ends in Python's \<open>IndexError\<close>, raised by the string index.
\<close>

theorem set_face_from_string_lengths:
  assumes "cube_ok c"
  shows "(9 \<le> length face_string \<longrightarrow>
            set_face_from_string c k face_string =
              Inr (c\<lparr>faces := (faces c)(k := rows_of face_string)\<rparr>))
       \<and> (length face_string < 9 \<longrightarrow>
            (\<exists>c'. set_face_from_string c k face_string = Inl (IndexError, c')))"
  using assms
  by (simp add: cube_ok_face set_face_from_string_ge9 set_face_from_string_lt9)

theorem set_face_from_string_lengths_witness:
  "cube_ok RubiksCube_init
   \<and> 9 \<le> length ''xYYYYYYYYR''
   \<and> set_face_from_string RubiksCube_init U ''xYYYYYYYYR'' =
       Inr (RubiksCube_init\<lparr>faces := init_faces(U := [''xYY'', ''YYY'', ''YYY''])\<rparr>)
   \<and> length ''GG'' < 9
   \<and> (\<exists>c'. set_face_from_string RubiksCube_init U ''GG'' = Inl (IndexError, c'))"
  using set_face_from_string_lengths [OF init_ok, of "''xYYYYYYYYR''" U]
    set_face_from_string_lengths [OF init_ok, of "''GG''" U] init_ok
  by (simp add: rows_of_def RubiksCube_init_def)

text \<open>
  The claim as it was written fails for a string of ten symbols: its length is not 9 and
  the call succeeds.
\<close>

theorem set_face_from_string_too_long:
  "length ''WWWWWWWWWY'' \<noteq> 9
   \<and> set_face_from_string RubiksCube_init R ''WWWWWWWWWY'' =
       Inr (RubiksCube_init\<lparr>faces := init_faces(R := [''WWW'', ''WWW'', ''WWW''])\<rparr>)"
  by (simp add: set_face_from_string_def upt3 set_cell_def RubiksCube_init_def init_faces_def
      uniform_face_def)

section \<open>Unknown tokens\<close>

text \<open>
  Claim C8.  For every token that is none of the eighteen move tokens and every cube,
  \<open>execute_move\<close> returns the cube as it was; the call has no failing branch.
\<close>

theorem unrecognized_move_noop:
  assumes "move \<notin> set recognized_tokens"
  shows "execute_move c move = c"
  using assms by (simp add: execute_move_def move_map_def recognized_tokens_def)

theorem unrecognized_move_noop_witness:
  "''R3'' \<notin> set recognized_tokens
   \<and> execute_move (move_R RubiksCube_init) ''R3'' = move_R RubiksCube_init"
proof -
  have tok: "''R3'' \<notin> set recognized_tokens"
    by (simp add: recognized_tokens_def)
  from unrecognized_move_noop [OF tok, of "move_R RubiksCube_init"] tok show ?thesis
    by simp
qed

section \<open>Manual input is all or nothing\<close>

text \<open>
  Claim C9.  The validation accepts the six strings exactly when each has length 9 and
  only letters of \<open>W Y R O B G\<close> in either case.  When it rejects, the cube is left as it
  was, every face of it.  When it accepts, every face of a cube of the right shape is
  overwritten row by row with its string in capitals.
\<close>

theorem manual_input_all_or_nothing:
  "(validate_inputs face_inputs \<longleftrightarrow>
      (\<forall>k. length (face_inputs k) = 9
          \<and> (\<forall>ch\<in>set (face_inputs k). ch \<in> set ''WYROBGwyrobg'')))
   \<and> (\<not> validate_inputs face_inputs \<longrightarrow> update_cube c face_inputs = c)
   \<and> (validate_inputs face_inputs \<and> cube_ok c \<longrightarrow>
        (\<forall>k. faces (update_cube c face_inputs) k = rows_of (upper (face_inputs k))
           \<and> get_face_string (update_cube c face_inputs) k = upper (face_inputs k)))"
proof -
  have rejected: "\<not> validate_inputs face_inputs \<longrightarrow> update_cube c face_inputs = c"
    by (simp add: update_cube_def)
  have accepted: "faces (update_cube c face_inputs) k = rows_of (upper (face_inputs k))
      \<and> get_face_string (update_cube c face_inputs) k = upper (face_inputs k)"
    if v: "validate_inputs face_inputs" and ok: "cube_ok c" for k
  proof -
    from v have len: "length (face_inputs k) = 9" for k
      by (simp add: validate_inputs_iff)
    then have "length (upper (face_inputs k)) = 9"
      by (simp add: upper_def)
    then have "concat (rows_of (upper (face_inputs k))) = upper (face_inputs k)"
      by (rule concat_rows_of)
    with v show ?thesis
      by (simp add: update_cube_def store_inputs_all [OF ok len] get_face_string_def)
  qed
  from validate_inputs_iff [of face_inputs] rejected accepted show ?thesis
    by blast
qed

theorem manual_input_all_or_nothing_witness:
  "\<not> validate_inputs (\<lambda>k. if k = B then ''wwwyyyrr'' else ''wwwyyyrrr'')
   \<and> update_cube RubiksCube_init (\<lambda>k. if k = B then ''wwwyyyrr'' else ''wwwyyyrrr'') =
       RubiksCube_init
   \<and> validate_inputs (\<lambda>k. ''wwwyyyRRR'') \<and> cube_ok RubiksCube_init
   \<and> faces (update_cube RubiksCube_init (\<lambda>k. ''wwwyyyRRR'')) L = [''WWW'', ''YYY'', ''RRR'']"
proof -
  have bad: "\<not> validate_inputs (\<lambda>k. if k = B then ''wwwyyyrr'' else ''wwwyyyrrr'')"
    by (simp add: validate_inputs_def face_keys_def)
  have good: "validate_inputs (\<lambda>k. ''wwwyyyRRR'')"
    by (simp add: validate_inputs_def face_keys_def upper_char_def valid_colors_def)
  have up: "rows_of (upper ''wwwyyyRRR'') = [''WWW'', ''YYY'', ''RRR'']"
    by (simp add: rows_of_def upper_def upper_char_def)
  from manual_input_all_or_nothing
         [of "\<lambda>k. if k = B then ''wwwyyyrr'' else ''wwwyyyrrr''" RubiksCube_init]
       manual_input_all_or_nothing [of "\<lambda>k. ''wwwyyyRRR''" RubiksCube_init]
       bad good up init_ok
  show ?thesis
    by simp
qed

end
